theory Spec2Isabelle
  imports Complex_Main "HOL-Library.Word" "HOL-Library.Sublist"
begin

section \<open>JavaScript strings\<close>

text \<open>
  A JavaScript string is a sequence of UTF-16 code units. The constants of the source
  that are plain ASCII are written with \<open>ascii\<close>; the others are spelled out by
  their code units.
\<close>

type_synonym js_string = "16 word list"

definition ascii :: "string \<Rightarrow> js_string" where
  "ascii cs = map (\<lambda>c. of_nat (of_char c)) cs"

text \<open>
  The code units that \<open>String.prototype.trim\<close> strips (ECMAScript WhiteSpace and
  LineTerminator): TAB, LF, VT, FF, CR, SP, NBSP, U+1680, U+2000..U+200A, LS, PS,
  U+202F, U+205F, U+3000 and U+FEFF.
\<close>

definition isWhiteSpace :: "16 word \<Rightarrow> bool" where
  "isWhiteSpace c \<longleftrightarrow>
     c = 0x9 \<or> c = 0xA \<or> c = 0xB \<or> c = 0xC \<or> c = 0xD \<or> c = 0x20 \<or> c = 0xA0 \<or>
     c = 0x1680 \<or> (0x2000 \<le> c \<and> c \<le> 0x200A) \<or> c = 0x2028 \<or> c = 0x2029 \<or>
     c = 0x202F \<or> c = 0x205F \<or> c = 0x3000 \<or> c = 0xFEFF"

definition trim :: "js_string \<Rightarrow> js_string" where
  "trim s = rev (dropWhile isWhiteSpace (rev (dropWhile isWhiteSpace s)))"

text \<open>A string in a condition: the empty string is falsy, every other string truthy.\<close>

definition truthy :: "js_string \<Rightarrow> bool" where
  "truthy s \<longleftrightarrow> s \<noteq> []"

text \<open>\<open>Array.prototype.join\<close> on an array of strings.\<close>

fun join :: "js_string \<Rightarrow> js_string list \<Rightarrow> js_string" where
  "join sep [] = []"
| "join sep [x] = x"
| "join sep (x # y # ys) = x @ sep @ join sep (y # ys)"

text \<open>
  \<open>Array.prototype.slice(-n)\<close>: the last \<open>n\<close> elements, the whole array when it
  has fewer.
\<close>

definition slice_last :: "nat \<Rightarrow> 'a list \<Rightarrow> 'a list" where
  "slice_last n xs = drop (length xs - n) xs"

section \<open>The data model (types.ts)\<close>

datatype chat_role = User | Model | CoachHint | CoachFeedback | CoachReference

record chat_metadata =
  md_score :: "js_string option"
  refined_answer :: "js_string option"

record chat_message =
  role :: chat_role
  msg_text :: js_string
  timestamp :: int
  metadata :: "chat_metadata option"

text \<open>
  The fields of \<open>last_answer_feedback\<close> are optional here, as they are in the tool
  declaration (which requires only \<open>mood\<close> and \<open>internal_thought\<close>) and in what
  the handler tests before it reads \<open>advice\<close>. \<open>mood\<close> is whatever string arrives.
\<close>

record answer_feedback =
  score :: "js_string option"
  advice :: "js_string option"
  refined_response :: "js_string option"

record interviewer_mindset =
  mood :: js_string
  internal_thought :: js_string
  suggested_answer_tips :: "js_string option"
  reference_answer_for_question :: "js_string option"
  last_answer_feedback :: "answer_feedback option"

datatype session_status = Listening | Thinking | Speaking

datatype connection_status = Initializing | Connecting | Connected | Reconnecting | ErrorStatus

section \<open>Inbound messages and outbound calls\<close>

record function_call =
  call_id :: "js_string option"
  call_name :: js_string
  call_args :: interviewer_mindset

text \<open>A part of a model turn, reduced to \<open>inlineData?.data\<close>.\<close>

record turn_part =
  inlineData :: "js_string option"

text \<open>
  \<open>outputTranscription\<close> and \<open>inputTranscription\<close> stand for the transcription
  object when it is there, reduced to its \<open>text\<close>; \<open>modelTurn\<close> for its
  \<open>parts\<close>.
\<close>

record server_content =
  outputTranscription :: "js_string option"
  inputTranscription :: "js_string option"
  turnComplete :: bool
  modelTurn :: "turn_part list option"
  interrupted :: bool

record live_server_message =
  toolCall :: "function_call list option"
  serverContent :: "server_content option"

text \<open>The SDK's \<open>Blob\<close>: what \<open>createPcmBlob\<close> hands to \<open>sendRealtimeInput\<close>.\<close>

record media_blob =
  mimeType :: js_string
  blob_data :: js_string

text \<open>
  An \<open>AudioBuffer\<close> of the Web Audio API, reduced to what its \<open>duration\<close> is
  computed from: the number of sample frames and the sample rate.
\<close>

record audio_buffer =
  frames :: nat
  sampleRate :: nat

definition duration :: "audio_buffer \<Rightarrow> real" where
  "duration b = real (frames b) / real (sampleRate b)"

text \<open>
  What the component does to the outside is kept as a log of calls, oldest first: the
  calls on the session object (\<open>sendToolResponse\<close> with the call's id, its name and the
  \<open>result\<close> of the response; \<open>sendRealtimeInput\<close> with a media blob or with a
  content of a role and a text) and the calls on buffer source nodes (\<open>start\<close> with the
  node, the start time and the duration of its buffer; \<open>stop\<close>). A node is named by
  the number of nodes created before it.
\<close>

datatype effect =
    SendToolResponse "js_string option" js_string js_string
  | SendRealtimeMedia media_blob
  | SendRealtimeContent js_string js_string
  | SourceStart nat real real
  | SourceStop nat

section \<open>The state of the component\<close>

text \<open>
  The \<open>useState\<close> values and the refs of \<open>LiveSession\<close> that the handlers read
  or write. \<open>sourcesRef\<close> is the set of live source nodes in insertion order (the
  order in which \<open>forEach\<close> visits a \<open>Set\<close>). \<open>activeSessionRef\<close> is \<open>None\<close>
  for \<open>null\<close>. Two fields are bookkeeping of the model: \<open>dateReads\<close> counts the
  calls of \<open>Date.now()\<close> made so far, \<open>nodeCount\<close> the source nodes created.
\<close>

record session_state =
  connectionStatus :: connection_status
  sessionStatus :: session_status
  isMicOn :: bool
  isMicOnRef :: bool
  chatHistory :: "chat_message list"
  chatHistoryRef :: "chat_message list"
  audioVolume :: real
  mindset :: interviewer_mindset
  steeringInput :: js_string
  nextStartTimeRef :: real
  sourcesRef :: "nat list"
  activeSessionRef :: "nat option"
  currentInputTranscription :: js_string
  currentOutputTranscription :: js_string
  effects :: "effect list"
  dateReads :: nat
  nodeCount :: nat

text \<open>
  The surroundings of a handler: \<open>dateNow k\<close> is what the \<open>k\<close>-th call of
  \<open>Date.now()\<close> returns; \<open>decodedAudio b\<close> is the buffer that
  \<open>decodeAudioData(decode(b), ctx, 24000, 1)\<close> of services/audioUtils resolves to,
  \<open>None\<close> when it throws.
\<close>

record env =
  dateNow :: "nat \<Rightarrow> int"
  decodedAudio :: "js_string \<Rightarrow> audio_buffer option"

section \<open>The message handler (connectToGemini, callbacks.onmessage)\<close>

subsection \<open>Tool calls: mindset and coaching turns\<close>

text \<open>
  The updater of \<open>setChatHistory\<close> builds \<open>newHistory\<close> from the previous history;
  each \<open>push\<close> reads \<open>Date.now()\<close> once. The three steps below work on the pair of
  the history under construction and the number of clock reads.
\<close>

definition pushFeedback ::
  "env \<Rightarrow> interviewer_mindset \<Rightarrow> chat_message list \<times> nat \<Rightarrow> chat_message list \<times> nat" where
  "pushFeedback e newMindset hr =
     (case last_answer_feedback newMindset of
        None \<Rightarrow> hr
      | Some fb \<Rightarrow>
          (case advice fb of
             None \<Rightarrow> hr
           | Some a \<Rightarrow>
               if truthy a then
                 (fst hr @ [\<lparr>role = CoachFeedback, msg_text = a,
                            timestamp = dateNow e (snd hr),
                            metadata = Some \<lparr>md_score = score fb,
                                              refined_answer = refined_response fb\<rparr>\<rparr>],
                  Suc (snd hr))
               else hr))"

definition pushReference ::
  "env \<Rightarrow> interviewer_mindset \<Rightarrow> chat_message list \<times> nat \<Rightarrow> chat_message list \<times> nat" where
  "pushReference e newMindset hr =
     (case reference_answer_for_question newMindset of
        None \<Rightarrow> hr
      | Some r \<Rightarrow>
          if truthy r then
            (fst hr @ [\<lparr>role = CoachReference, msg_text = r,
                       timestamp = dateNow e (snd hr) + 50, metadata = None\<rparr>],
             Suc (snd hr))
          else hr)"

definition pushHint ::
  "env \<Rightarrow> interviewer_mindset \<Rightarrow> chat_message list \<times> nat \<Rightarrow> chat_message list \<times> nat" where
  "pushHint e newMindset hr =
     (case suggested_answer_tips newMindset of
        None \<Rightarrow> hr
      | Some t \<Rightarrow>
          if truthy t then
            (fst hr @ [\<lparr>role = CoachHint, msg_text = t,
                       timestamp = dateNow e (snd hr) + 100, metadata = None\<rparr>],
             Suc (snd hr))
          else hr)"

definition injectCoaching :: "env \<Rightarrow> interviewer_mindset \<Rightarrow> session_state \<Rightarrow> session_state" where
  "injectCoaching e newMindset s =
     (let hr = pushHint e newMindset
                 (pushReference e newMindset
                   (pushFeedback e newMindset (chatHistory s, dateReads s)))
      in s\<lparr>chatHistory := fst hr, chatHistoryRef := fst hr, dateReads := snd hr\<rparr>)"

definition update_mindset :: js_string where
  "update_mindset = ascii ''update_mindset''"

definition handleCall :: "env \<Rightarrow> session_state \<Rightarrow> function_call \<Rightarrow> session_state" where
  "handleCall e s call =
     (if call_name call = update_mindset then
        (let newMindset = call_args call;
             s1 = s\<lparr>mindset := newMindset\<rparr>;
             s2 = injectCoaching e newMindset s1
         in s2\<lparr>effects := effects s2 @
                  [SendToolResponse (call_id call) (call_name call) (ascii ''ok'')]\<rparr>)
      else s)"

text \<open>
  The conditions under which the updater pushes a coaching turn: the field is there and
  its string is not empty.
\<close>

definition adviceGiven :: "interviewer_mindset \<Rightarrow> bool" where
  "adviceGiven m =
     (case last_answer_feedback m of
        None \<Rightarrow> False
      | Some fb \<Rightarrow> (case advice fb of None \<Rightarrow> False | Some a \<Rightarrow> a \<noteq> []))"

definition referenceGiven :: "interviewer_mindset \<Rightarrow> bool" where
  "referenceGiven m =
     (case reference_answer_for_question m of None \<Rightarrow> False | Some r \<Rightarrow> r \<noteq> [])"

definition tipsGiven :: "interviewer_mindset \<Rightarrow> bool" where
  "tipsGiven m = (case suggested_answer_tips m of None \<Rightarrow> False | Some t \<Rightarrow> t \<noteq> [])"

text \<open>Arguments with \<open>mood\<close> and \<open>internal_thought\<close> only.\<close>

definition bareMindset :: "interviewer_mindset \<Rightarrow> bool" where
  "bareMindset m \<longleftrightarrow>
     suggested_answer_tips m = None \<and> reference_answer_for_question m = None \<and>
     last_answer_feedback m = None"

subsection \<open>Transcription fragments and the end of a turn\<close>

definition accumulate :: "server_content \<Rightarrow> session_state \<Rightarrow> session_state" where
  "accumulate sc s =
     (case outputTranscription sc of
        Some t \<Rightarrow> s\<lparr>currentOutputTranscription := currentOutputTranscription s @ t,
                    sessionStatus := Speaking\<rparr>
      | None \<Rightarrow>
          (case inputTranscription sc of
             Some t \<Rightarrow> s\<lparr>currentInputTranscription := currentInputTranscription s @ t,
                         sessionStatus := Listening\<rparr>
           | None \<Rightarrow> s))"

definition pushTurn ::
  "env \<Rightarrow> chat_role \<Rightarrow> js_string \<Rightarrow> chat_message list \<times> nat \<Rightarrow> chat_message list \<times> nat" where
  "pushTurn e r txt hr =
     (if truthy (trim txt) then
        (fst hr @ [\<lparr>role = r, msg_text = txt, timestamp = dateNow e (snd hr),
                   metadata = None\<rparr>],
         Suc (snd hr))
      else hr)"

definition completeTurn :: "env \<Rightarrow> server_content \<Rightarrow> session_state \<Rightarrow> session_state" where
  "completeTurn e sc s =
     (if turnComplete sc then
        (let s1 = s\<lparr>sessionStatus := Listening\<rparr>;
             userText = currentInputTranscription s1;
             modelText = currentOutputTranscription s1
         in if truthy (trim userText) \<or> truthy (trim modelText) then
              (let hr = pushTurn e Model modelText
                          (pushTurn e User userText (chatHistory s1, dateReads s1))
               in s1\<lparr>chatHistory := fst hr, chatHistoryRef := fst hr, dateReads := snd hr,
                     currentInputTranscription := [], currentOutputTranscription := []\<rparr>)
            else s1)
      else s)"

subsection \<open>Audio output and interruption\<close>

text \<open>\<open>message.serverContent?.modelTurn?.parts[0]?.inlineData?.data\<close>\<close>

definition base64Audio :: "server_content \<Rightarrow> js_string option" where
  "base64Audio sc =
     (case modelTurn sc of
        None \<Rightarrow> None
      | Some [] \<Rightarrow> None
      | Some (p # ps) \<Rightarrow> inlineData p)"

text \<open>
  The audio branch. \<open>outputAudioContextRef.current\<close> is assigned before the session is
  opened and never reset, so the guard is the truthiness of the payload. \<open>now\<close> is
  \<open>ctx.currentTime\<close> as the handler reads it. When decoding throws, the handler ends
  there (\<open>Inl\<close>), after the two assignments it has already made. The handler is taken
  to run to its end before the next message is handled.
\<close>

definition audioOutput ::
  "env \<Rightarrow> real \<Rightarrow> server_content \<Rightarrow> session_state \<Rightarrow> session_state + session_state" where
  "audioOutput e now sc s =
     (case base64Audio sc of
        None \<Rightarrow> Inr s
      | Some b \<Rightarrow>
          if \<not> truthy b then Inr s
          else
            (let s1 = s\<lparr>sessionStatus := Speaking,
                        nextStartTimeRef := max (nextStartTimeRef s) now\<rparr>
             in case decodedAudio e b of
                  None \<Rightarrow> Inl s1
                | Some audioBuffer \<Rightarrow>
                    Inr (s1\<lparr>effects := effects s1 @
                               [SourceStart (nodeCount s1) (nextStartTimeRef s1)
                                  (duration audioBuffer)],
                             nextStartTimeRef := nextStartTimeRef s1 + duration audioBuffer,
                             sourcesRef := sourcesRef s1 @ [nodeCount s1],
                             nodeCount := Suc (nodeCount s1)\<rparr>)))"

definition interrupt :: "server_content \<Rightarrow> session_state \<Rightarrow> session_state" where
  "interrupt sc s =
     (if interrupted sc then
        s\<lparr>effects := effects s @ map SourceStop (sourcesRef s),
          sourcesRef := [],
          nextStartTimeRef := 0,
          currentOutputTranscription := [],
          sessionStatus := Listening\<rparr>
      else s)"

text \<open>The listener of a source node's \<open>ended\<close> event.\<close>

definition ended :: "nat \<Rightarrow> session_state \<Rightarrow> session_state" where
  "ended source s =
     (let s1 = s\<lparr>sourcesRef := removeAll source (sourcesRef s)\<rparr>
      in if length (sourcesRef s1) = 0 then s1\<lparr>sessionStatus := Listening\<rparr> else s1)"

subsection \<open>The handler\<close>

definition onmessage ::
  "env \<Rightarrow> real \<Rightarrow> live_server_message \<Rightarrow> session_state \<Rightarrow> session_state" where
  "onmessage e now message s =
     (case toolCall message of
        Some calls \<Rightarrow> foldl (handleCall e) s calls
      | None \<Rightarrow>
          (case serverContent message of
             None \<Rightarrow> s
           | Some sc \<Rightarrow>
               (case audioOutput e now sc (completeTurn e sc (accumulate sc s)) of
                  Inl s' \<Rightarrow> s'
                | Inr s' \<Rightarrow> interrupt sc s')))"

text \<open>
  A run of the handler over the messages that arrive, each with the output clock's time
  at its arrival.
\<close>

definition run ::
  "env \<Rightarrow> (real \<times> live_server_message) list \<Rightarrow> session_state \<Rightarrow> session_state" where
  "run e ms s = foldl (\<lambda>s' nm. onmessage e (fst nm) (snd nm) s') s ms"

text \<open>The playback schedule in a log: start time and duration of every started node.\<close>

fun segments :: "effect list \<Rightarrow> (real \<times> real) list" where
  "segments [] = []"
| "segments (SourceStart n t d # es) = (t, d) # segments es"
| "segments (_ # es) = segments es"

definition interrupts :: "live_server_message \<Rightarrow> bool" where
  "interrupts message =
     (case serverContent message of None \<Rightarrow> False | Some sc \<Rightarrow> interrupted sc)"

text \<open>
  The segments scheduled since the log had length \<open>k\<close>, and what it means for a
  schedule that no segment starts before the one before it has ended.
\<close>

definition scheduledSince :: "nat \<Rightarrow> session_state \<Rightarrow> (real \<times> real) list" where
  "scheduledSince k s = segments (drop k (effects s))"

definition gapless :: "(real \<times> real) list \<Rightarrow> bool" where
  "gapless segs \<longleftrightarrow> (\<forall>i. Suc i < length segs \<longrightarrow> fst (segs ! i) + snd (segs ! i) \<le> fst (segs ! Suc i))"

section \<open>Instruction preparation on connect (connectToGemini, step 3)\<close>

definition transcriptLine :: "chat_message \<Rightarrow> js_string" where
  "transcriptLine msg =
     (if role msg = User then ascii ''Candidate'' else ascii ''Interviewer'')
       @ ascii '': '' @ msg_text msg"

definition replayTurns :: "chat_message list \<Rightarrow> chat_message list" where
  "replayTurns h = slice_last 20 (filter (\<lambda>m. role m = User \<or> role m = Model) h)"

definition finalSystemInstruction :: "js_string \<Rightarrow> bool \<Rightarrow> chat_message list \<Rightarrow> js_string" where
  "finalSystemInstruction systemInstruction isRetry h =
     (if isRetry \<and> length h > 0 then
        (let transcript = join [0xA] (map transcriptLine (replayTurns h))
         in systemInstruction @ [0xA, 0xA] @
            ascii ''[SYSTEM: CONNECTION RESTORED] Resume the interview. Transcript:'' @
            [0xA] @ transcript)
      else systemInstruction)"

text \<open>What the retry puts between the persona instruction and the transcript.\<close>

definition restoredHeader :: js_string where
  "restoredHeader =
     [0xA, 0xA] @ ascii ''[SYSTEM: CONNECTION RESTORED] Resume the interview. Transcript:'' @
     [0xA]"

section \<open>User commands\<close>

definition toggleMic :: "session_state \<Rightarrow> session_state" where
  "toggleMic s =
     (let newState = \<not> isMicOn s
      in s\<lparr>isMicOnRef := newState, isMicOn := newState\<rparr>)"

text \<open>
  The audio-frame tap. \<open>closureStatus\<close> is the \<open>sessionStatus\<close> that the callback
  closed over when \<open>connectToGemini\<close> was created, not the current one;
  \<open>createPcmBlob\<close> is the encoder of services/audioUtils. A frame of the script
  processor has 4096 samples.
\<close>

definition onaudioprocess ::
  "session_status \<Rightarrow> (real list \<Rightarrow> media_blob) \<Rightarrow> real list \<Rightarrow> session_state \<Rightarrow> session_state" where
  "onaudioprocess closureStatus createPcmBlob inputData s =
     (if \<not> isMicOnRef s then s
      else
        (let volume = foldl (\<lambda>acc val. acc + \<bar>val\<bar>) 0 inputData / real (length inputData);
             s1 = s\<lparr>audioVolume := min (volume * 500) 100\<rparr>;
             s2 = (if volume > 0.01 \<and> closureStatus \<noteq> Speaking
                   then s1\<lparr>sessionStatus := Listening\<rparr> else s1)
         in s2\<lparr>effects := effects s2 @ [SendRealtimeMedia (createPcmBlob inputData)]\<rparr>))"

text \<open>
  The steering command. The prefix is \<open>(\<close>, U+6307, U+4EE4, \<open>)\<close> and a space.
  \<open>sendThrows\<close> tells whether the call of \<open>sendRealtimeInput\<close> throws: the
  \<open>catch\<close> then skips the reset of the input field.
\<close>

definition steeringPrefix :: js_string where
  "steeringPrefix = [0x28, 0x6307, 0x4EE4, 0x29, 0x20]"

definition handleSteering :: "env \<Rightarrow> bool \<Rightarrow> session_state \<Rightarrow> session_state" where
  "handleSteering e sendThrows s =
     (if \<not> truthy (trim (steeringInput s)) \<or> activeSessionRef s = None then s
      else
        (let s1 = s\<lparr>chatHistory := chatHistory s @
                       [\<lparr>role = User, msg_text = steeringPrefix @ steeringInput s,
                         timestamp = dateNow e (dateReads s), metadata = None\<rparr>],
                     dateReads := Suc (dateReads s)\<rparr>;
             s2 = s1\<lparr>effects := effects s1 @
                       [SendRealtimeContent (ascii ''user'')
                          (ascii ''[System Instruction: '' @ steeringInput s @ ascii '']'')]\<rparr>
         in if sendThrows then s2 else s2\<lparr>steeringInput := []\<rparr>))"

section \<open>The audio codec (services/audioUtils)\<close>

text \<open>
  Modelled from the spec: services/audioUtils, which holds \<open>createPcmBlob\<close>,
  \<open>decode\<close> and \<open>decodeAudioData\<close>, is not among the sources; the component only
  imports them. The definitions of this section follow section 4.1 of the specification.
  Samples are real numbers: every step below (scaling by a power of two, rounding to an
  integer, dividing by a power of two) is exact on the floating-point samples too. The
  specification fixes neither the scale nor the rounding; the model scales by 32768,
  rounds down and clamps to the range of a signed 16-bit integer. The textual (base64)
  framing of the block is not modelled: a block is its sample-rate tag and its bytes.
\<close>

datatype codec_error = DecodeError

record pcm_block =
  block_rate :: nat
  block_bytes :: "8 word list"

record playable_buffer =
  buffer_rate :: nat
  buffer_channels :: nat
  buffer_samples :: "real list"

text \<open>
  Modelled from the spec: "clamp, do not throw" and "16-bit signed integers". A sample is
  clamped to [-1, 1] and quantized to an integer from -32768 to 32767.
\<close>

definition clampSample :: "real \<Rightarrow> real" where
  "clampSample x = max (- 1) (min 1 x)"

definition quantize :: "real \<Rightarrow> int" where
  "quantize x = max (- 32768) (min 32767 \<lfloor>clampSample x * 32768\<rfloor>)"

text \<open>
  Modelled from the spec: "little-endian". The low byte comes first; \<open>int16_of\<close>
  reads two bytes back as a signed integer.
\<close>

definition int16_bytes :: "int \<Rightarrow> 8 word list" where
  "int16_bytes v = [word_of_int v, word_of_int (v div 256)]"

definition int16_of :: "8 word \<Rightarrow> 8 word \<Rightarrow> int" where
  "int16_of lo hi =
     (let u = uint lo + 256 * uint hi in if u < 32768 then u else u - 65536)"

text \<open>
  Modelled from the spec: \<open>encode(samples, sampleRate) -> binary block\<close>, the
  samples as 16-bit signed little-endian integers with the declared sample rate.
\<close>

definition encode :: "real list \<Rightarrow> nat \<Rightarrow> pcm_block" where
  "encode samples rate =
     \<lparr>block_rate = rate, block_bytes = concat (map (\<lambda>x. int16_bytes (quantize x)) samples)\<rparr>"

text \<open>
  Modelled from the spec: \<open>decode(binary block) -> raw bytes\<close>, which "fails with
  DecodeError on malformed input length": here, on a payload that is not a whole number of
  16-bit samples.
\<close>

definition decode :: "pcm_block \<Rightarrow> codec_error + 8 word list" where
  "decode block =
     (if even (length (block_bytes block)) then Inr (block_bytes block) else Inl DecodeError)"

text \<open>
  Modelled from the spec: \<open>decodeAudioData(bytes, contextSampleRate, channelCount)\<close>
  "reinterprets raw 16-bit samples as normalized floats".
\<close>

fun normalized :: "8 word list \<Rightarrow> real list" where
  "normalized (lo # hi # rest) = real_of_int (int16_of lo hi) / 32768 # normalized rest"
| "normalized _ = []"

definition decodeAudioData :: "8 word list \<Rightarrow> nat \<Rightarrow> nat \<Rightarrow> playable_buffer" where
  "decodeAudioData bytes rate channels =
     \<lparr>buffer_rate = rate, buffer_channels = channels, buffer_samples = normalized bytes\<rparr>"

text \<open>
  Modelled from the spec: the round trip of section 8, encoding the samples and decoding
  the block to one channel of samples again.
\<close>

definition roundTrip :: "real list \<Rightarrow> nat \<Rightarrow> codec_error + real list" where
  "roundTrip samples rate =
     (case decode (encode samples rate) of
        Inl err \<Rightarrow> Inl err
      | Inr bytes \<Rightarrow> Inr (buffer_samples (decodeAudioData bytes rate 1)))"

section \<open>Concrete states, surroundings and messages\<close>

text \<open>
  The state of a freshly mounted component (the initial values of its \<open>useState\<close> and
  \<open>useRef\<close> calls), a clock that advances by a millisecond at every read, and a
  decoder that gives 25 ms of audio for every code unit of a payload whose length is a
  multiple of four and throws on any other payload.
\<close>

definition initialState :: session_state where
  "initialState =
     \<lparr>connectionStatus = Initializing, sessionStatus = Listening,
      isMicOn = True, isMicOnRef = True,
      chatHistory = [], chatHistoryRef = [], audioVolume = 0,
      mindset = \<lparr>mood = ascii ''Neutral'',
                 internal_thought = [0x6B63, 0x5728, 0x51C6, 0x5907, 0x9762, 0x8BD5, 0x73AF,
                                     0x5883, 0x2E, 0x2E, 0x2E],
                 suggested_answer_tips = None, reference_answer_for_question = None,
                 last_answer_feedback = None\<rparr>,
      steeringInput = [], nextStartTimeRef = 0, sourcesRef = [], activeSessionRef = None,
      currentInputTranscription = [], currentOutputTranscription = [],
      effects = [], dateReads = 0, nodeCount = 0\<rparr>"

definition exampleEnv :: env where
  "exampleEnv = \<lparr>dateNow = (\<lambda>k. 1700000000000 + int k),
                 decodedAudio = (\<lambda>b. if length b mod 4 = 0
                                         then Some \<lparr>frames = 600 * length b, sampleRate = 24000\<rparr>
                                         else None)\<rparr>"

text \<open>
  The audio of a message, if it carries any, decodes: the handler then reaches its last
  step.
\<close>

definition decodable :: "env \<Rightarrow> server_content \<Rightarrow> bool" where
  "decodable e sc =
     (case base64Audio sc of
        None \<Rightarrow> True
      | Some b \<Rightarrow> \<not> truthy b \<or> decodedAudio e b \<noteq> None)"

definition interruptedOnly :: live_server_message where
  "interruptedOnly =
     \<lparr>toolCall = None,
      serverContent = Some \<lparr>outputTranscription = None, inputTranscription = None,
                            turnComplete = False, modelTurn = None, interrupted = True\<rparr>\<rparr>"

definition turnCompleteOnly :: live_server_message where
  "turnCompleteOnly =
     \<lparr>toolCall = None,
      serverContent = Some \<lparr>outputTranscription = None, inputTranscription = None,
                            turnComplete = True, modelTurn = None, interrupted = False\<rparr>\<rparr>"

definition examplePcmBlob :: "real list \<Rightarrow> media_blob" where
  "examplePcmBlob inputData =
     \<lparr>mimeType = ascii ''audio/pcm;rate=16000'', blob_data = replicate (length inputData) 0x41\<rparr>"

definition audioChunk :: "js_string \<Rightarrow> live_server_message" where
  "audioChunk b =
     \<lparr>toolCall = None,
      serverContent = Some \<lparr>outputTranscription = None, inputTranscription = None,
                            turnComplete = False,
                            modelTurn = Some [\<lparr>inlineData = Some b\<rparr>], interrupted = False\<rparr>\<rparr>"

definition exampleChunks :: "(real \<times> live_server_message) list" where
  "exampleChunks =
     [(5, audioChunk (ascii ''AAAA'')),
      (5.05, audioChunk (ascii ''AAAAAAAA'')),
      (7, audioChunk (ascii ''AAAA''))]"

definition bareCall :: function_call where
  "bareCall =
     \<lparr>call_id = Some (ascii ''call-1''), call_name = ascii ''update_mindset'',
      call_args = \<lparr>mood = ascii ''Skeptical'', internal_thought = ascii ''vague'',
                   suggested_answer_tips = None, reference_answer_for_question = None,
                   last_answer_feedback = None\<rparr>\<rparr>"

definition fullCall :: function_call where
  "fullCall =
     \<lparr>call_id = Some (ascii ''call-2''), call_name = ascii ''update_mindset'',
      call_args = \<lparr>mood = ascii ''Impressed'', internal_thought = ascii ''solid'',
                   suggested_answer_tips = Some (ascii ''use numbers''),
                   reference_answer_for_question = Some (ascii ''I led a team of 5''),
                   last_answer_feedback =
                     Some \<lparr>score = Some (ascii ''8/10''), advice = Some (ascii ''be concrete''),
                           refined_response = Some (ascii ''I shipped it'')\<rparr>\<rparr>\<rparr>"

definition blankCall :: function_call where
  "blankCall =
     \<lparr>call_id = Some (ascii ''call-3''), call_name = ascii ''update_mindset'',
      call_args = \<lparr>mood = ascii ''Neutral'', internal_thought = ascii ''start'',
                   suggested_answer_tips = Some [],
                   reference_answer_for_question = Some [],
                   last_answer_feedback =
                     Some \<lparr>score = Some [], advice = Some [], refined_response = Some []\<rparr>\<rparr>\<rparr>"

definition toolCallMessage :: "function_call list \<Rightarrow> live_server_message" where
  "toolCallMessage calls = \<lparr>toolCall = Some calls, serverContent = None\<rparr>"

text \<open>
  The middle of a turn: the candidate has said "hi", the interviewer is in the middle of
  "Tell me".
\<close>

definition midTurnState :: session_state where
  "midTurnState =
     initialState\<lparr>currentInputTranscription := ascii ''hi'',
                  currentOutputTranscription := ascii ''Tell me''\<rparr>"

definition exampleTurn :: "chat_role \<Rightarrow> int \<Rightarrow> chat_message" where
  "exampleTurn r k = \<lparr>role = r, msg_text = ascii ''ok'', timestamp = k, metadata = None\<rparr>"

text \<open>
  A transcript of 25 turns: five rounds of a hint, a reference answer, the interviewer's
  question, the candidate's answer and the feedback on it.
\<close>

definition coachedTranscript :: "chat_message list" where
  "coachedTranscript =
     concat (map (\<lambda>k. [exampleTurn CoachHint (5 * k), exampleTurn CoachReference (5 * k + 1),
                        exampleTurn Model (5 * k + 2), exampleTurn User (5 * k + 3),
                        exampleTurn CoachFeedback (5 * k + 4)])
               [0, 1, 2, 3, 4])"

text \<open>A transcript of 25 spoken turns, interviewer and candidate in alternation.\<close>

definition spokenTranscript :: "chat_message list" where
  "spokenTranscript =
     concat (map (\<lambda>k. [exampleTurn Model (2 * k), exampleTurn User (2 * k + 1)])
               [0, 1, 2, 3, 4, 5, 6, 7, 8, 9, 10, 11]) @ [exampleTurn Model 24]"


section \<open>Properties\<close>

subsection \<open>Strings\<close>

lemma trim_truthy_iff: "truthy (trim s) \<longleftrightarrow> (\<exists>c\<in>set s. \<not> isWhiteSpace c)"
proof -
  let ?d = "dropWhile isWhiteSpace s"
  have "(\<forall>x\<in>set ?d. isWhiteSpace x) \<longleftrightarrow> ?d = []"
  proof
    assume all: "\<forall>x\<in>set ?d. isWhiteSpace x"
    show "?d = []"
    proof (rule ccontr)
      assume ne: "?d \<noteq> []"
      then have "\<not> isWhiteSpace (hd ?d)" by (rule hd_dropWhile)
      moreover have "hd ?d \<in> set ?d" using ne by simp
      ultimately show False using all by blast
    qed
  qed (auto dest: set_dropWhileD)
  then show ?thesis
    by (simp add: truthy_def trim_def dropWhile_eq_Nil_conv)
qed

subsection \<open>What the later steps of the handler leave alone\<close>

lemma onmessage_content:
  assumes "toolCall message = None" and "serverContent message = Some sc"
  shows "chatHistory (onmessage e now message s) =
           chatHistory (completeTurn e sc (accumulate sc s))"
    and "currentInputTranscription (onmessage e now message s) =
           currentInputTranscription (completeTurn e sc (accumulate sc s))"
    and "currentOutputTranscription (completeTurn e sc (accumulate sc s)) = [] \<Longrightarrow>
           currentOutputTranscription (onmessage e now message s) = []"
  using assms
  by (simp_all add: onmessage_def audioOutput_def interrupt_def Let_def
        split: option.splits sum.splits)

subsection \<open>Interruption\<close>

lemma audioOutput_decodable:
  "decodable e sc \<Longrightarrow> \<exists>s'. audioOutput e now sc s = Inr s' \<and>
     set (sourcesRef s) \<subseteq> set (sourcesRef s') \<and>
     (\<exists>new. effects s' = effects s @ new) \<and>
     currentInputTranscription s' = currentInputTranscription s \<and> 
     (base64Audio sc = None \<longrightarrow> s' = s)"
  by (auto simp: decodable_def audioOutput_def Let_def split: option.splits)

lemma interrupt_fields:
  "interrupted sc \<Longrightarrow>
     sourcesRef (interrupt sc s) = [] \<and> nextStartTimeRef (interrupt sc s) = 0 \<and>
     currentOutputTranscription (interrupt sc s) = [] \<and>
     sessionStatus (interrupt sc s) = Listening \<and>
     currentInputTranscription (interrupt sc s) = currentInputTranscription s \<and>
     effects (interrupt sc s) = effects s @ map SourceStop (sourcesRef s)"
  by (simp add: interrupt_def)

text \<open>
  Claim C3. A message that carries the \<open>interrupted\<close> flag (no tool call; the audio
  of the same message, if any, decodes) leaves the set of live source nodes empty, the
  scheduling clock at zero, the output transcription accumulator empty and the session
  status \<open>listening\<close>, however many nodes were in flight; \<open>stop\<close> has been called
  on every node that was in the set, and when the message carries no audio the calls made
  are exactly one \<open>stop\<close> per node of the set, in the set's order.
\<close>

theorem interrupted_resets_playback:
  assumes "toolCall message = None" and "serverContent message = Some sc"
    and "interrupted sc" and "decodable e sc"
  shows "sourcesRef (onmessage e now message s) = [] \<and>
         nextStartTimeRef (onmessage e now message s) = 0 \<and>
         currentOutputTranscription (onmessage e now message s) = [] \<and>
         sessionStatus (onmessage e now message s) = Listening \<and>
         (\<forall>n\<in>set (sourcesRef s). SourceStop n \<in> set (effects (onmessage e now message s))) \<and>
         (base64Audio sc = None \<longrightarrow>
            effects (onmessage e now message s) = effects s @ map SourceStop (sourcesRef s))"
proof -
  let ?s0 = "completeTurn e sc (accumulate sc s)"
  obtain s1 where s1: "audioOutput e now sc ?s0 = Inr s1"
    and sub: "set (sourcesRef ?s0) \<subseteq> set (sourcesRef s1)"
    and same: "base64Audio sc = None \<longrightarrow> s1 = ?s0"
    using audioOutput_decodable [OF assms(4)] by blast
  have om: "onmessage e now message s = interrupt sc s1"
    using assms(1,2) s1 by (simp add: onmessage_def)
  have src: "sourcesRef ?s0 = sourcesRef s" and eff: "effects ?s0 = effects s"
    by (simp_all add: completeTurn_def accumulate_def Let_def split: option.splits)
  show ?thesis
    using interrupt_fields [OF assms(3), of s1] sub same src eff unfolding om by auto
qed

theorem interrupted_resets_playback_witness:
  "(let s = initialState\<lparr>sourcesRef := [0, 1, 2], nextStartTimeRef := 3,
                            currentOutputTranscription := ascii ''Tell me'',
                            sessionStatus := Speaking\<rparr>;
        s' = onmessage exampleEnv 1 interruptedOnly s
    in sourcesRef s' = [] \<and> nextStartTimeRef s' = 0 \<and> currentOutputTranscription s' = [] \<and>
       sessionStatus s' = Listening \<and>
       effects s' = [SourceStop 0, SourceStop 1, SourceStop 2])"
  using interrupted_resets_playback [of interruptedOnly
      "\<lparr>outputTranscription = None, inputTranscription = None,
        turnComplete = False, modelTurn = None, interrupted = True\<rparr>" exampleEnv 1
      "initialState\<lparr>sourcesRef := [0, 1, 2], nextStartTimeRef := 3,
                            currentOutputTranscription := ascii ''Tell me'',
                            sessionStatus := Speaking\<rparr>"]
  by (simp add: interruptedOnly_def decodable_def base64Audio_def initialState_def Let_def)

text \<open>
  Claim C7, as stated, at a concrete input: the candidate has said "hi", the interviewer
  is in the middle of "Tell me", and an interruption arrives. It would have both
  accumulators empty afterwards; the inbound one still holds "hi".
\<close>

theorem interrupted_keeps_input_counterexample:
  "\<not> (currentInputTranscription (onmessage exampleEnv 1 interruptedOnly midTurnState) = [] \<and>
      currentOutputTranscription (onmessage exampleEnv 1 interruptedOnly midTurnState) = [])"
  by (simp add: onmessage_def interruptedOnly_def midTurnState_def initialState_def
        interrupt_def audioOutput_def completeTurn_def accumulate_def base64Audio_def
        ascii_def Let_def)

text \<open>
  Claim C7, amended. An interruption (a message with the \<open>interrupted\<close> flag, no tool
  call, its audio decodable) clears the outbound accumulator only. The inbound
  accumulator keeps what the earlier steps of the same message left in it; when the
  message carries no input fragment and does not complete a turn, that is its value
  before the message.
\<close>

theorem interrupted_clears_output_only:
  assumes "toolCall message = None" and "serverContent message = Some sc"
    and "interrupted sc" and "decodable e sc"
  shows "currentOutputTranscription (onmessage e now message s) = [] \<and>
         currentInputTranscription (onmessage e now message s) =
           currentInputTranscription (completeTurn e sc (accumulate sc s)) \<and>
         (inputTranscription sc = None \<and> \<not> turnComplete sc \<longrightarrow>
            currentInputTranscription (onmessage e now message s) =
              currentInputTranscription s)"
proof -
  let ?s0 = "completeTurn e sc (accumulate sc s)"
  obtain s1 where s1: "audioOutput e now sc ?s0 = Inr s1"
    using audioOutput_decodable [OF assms(4)] by blast
  have "onmessage e now message s = interrupt sc s1"
    using assms(1,2) s1 by (simp add: onmessage_def)
  then have out: "currentOutputTranscription (onmessage e now message s) = []"
    using interrupt_fields [OF assms(3), of s1] by simp
  have inp: "inputTranscription sc = None \<and> \<not> turnComplete sc \<longrightarrow>
      currentInputTranscription ?s0 = currentInputTranscription s"
    by (simp add: completeTurn_def accumulate_def split: option.splits)
  show ?thesis
    using out inp onmessage_content(2) [OF assms(1,2)] by simp
qed

theorem interrupted_clears_output_only_witness:
  "(let s = initialState\<lparr>currentInputTranscription := ascii ''hi'',
                           currentOutputTranscription := ascii ''Tell me''\<rparr>;
        s' = onmessage exampleEnv 1 interruptedOnly s
    in currentOutputTranscription s' = [] \<and> currentInputTranscription s' = ascii ''hi'')"
  using interrupted_clears_output_only [of interruptedOnly
      "\<lparr>outputTranscription = None, inputTranscription = None,
        turnComplete = False, modelTurn = None, interrupted = True\<rparr>" exampleEnv 1
      "initialState\<lparr>currentInputTranscription := ascii ''hi'',
                           currentOutputTranscription := ascii ''Tell me''\<rparr>"]
  by (simp add: interruptedOnly_def decodable_def base64Audio_def initialState_def Let_def
        completeTurn_def accumulate_def)

subsection \<open>The end of a turn\<close>

text \<open>
  Claim C4. On a message that completes a turn (no tool call), with the accumulators as
  they are once the fragment of the same message has been added: when both are non-empty
  after trimming, exactly two turns are appended, the candidate's (\<open>user\<close>) before the
  interviewer's (\<open>model\<close>), with the accumulated texts, and both accumulators are
  empty afterwards; when both are empty, the transcript is unchanged. A message that
  carries no fragment leaves the accumulators as they were before the check.
\<close>

theorem turnComplete_appends_turns:
  assumes "toolCall message = None" and "serverContent message = Some sc"
    and "turnComplete sc"
  shows "(let userText = currentInputTranscription (accumulate sc s);
              modelText = currentOutputTranscription (accumulate sc s);
              s' = onmessage e now message s
          in (truthy (trim userText) \<and> truthy (trim modelText) \<longrightarrow>
                chatHistory s' = chatHistory s @
                  [\<lparr>role = User, msg_text = userText,
                    timestamp = dateNow e (dateReads s), metadata = None\<rparr>,
                   \<lparr>role = Model, msg_text = modelText,
                    timestamp = dateNow e (Suc (dateReads s)), metadata = None\<rparr>] \<and>
                currentInputTranscription s' = [] \<and> currentOutputTranscription s' = []) \<and>
             (userText = [] \<and> modelText = [] \<longrightarrow> chatHistory s' = chatHistory s)) \<and>
         (outputTranscription sc = None \<and> inputTranscription sc = None \<longrightarrow>
            accumulate sc s = s)"
proof -
  let ?a = "accumulate sc s"
  have acc: "chatHistory ?a = chatHistory s" "dateReads ?a = dateReads s"
    by (simp_all add: accumulate_def split: option.splits)
  have both: "truthy (trim (currentInputTranscription ?a)) \<Longrightarrow>
      truthy (trim (currentOutputTranscription ?a)) \<Longrightarrow>
      chatHistory (completeTurn e sc ?a) = chatHistory s @
        [\<lparr>role = User, msg_text = currentInputTranscription ?a,
          timestamp = dateNow e (dateReads s), metadata = None\<rparr>,
         \<lparr>role = Model, msg_text = currentOutputTranscription ?a,
          timestamp = dateNow e (Suc (dateReads s)), metadata = None\<rparr>] \<and>
      currentInputTranscription (completeTurn e sc ?a) = [] \<and>
      currentOutputTranscription (completeTurn e sc ?a) = []"
    using assms(3) by (simp add: completeTurn_def pushTurn_def Let_def acc)
  have none: "currentInputTranscription ?a = [] \<Longrightarrow> currentOutputTranscription ?a = [] \<Longrightarrow>
      chatHistory (completeTurn e sc ?a) = chatHistory s"
    using assms(3) by (simp add: completeTurn_def trim_def truthy_def Let_def acc)
  have pure: "outputTranscription sc = None \<and> inputTranscription sc = None \<longrightarrow> ?a = s"
    by (simp add: accumulate_def)
  show ?thesis
    using both none pure onmessage_content [OF assms(1,2), where e = e and now = now and s = s]
    by (simp add: Let_def)
qed

theorem turnComplete_appends_turns_witness:
  "(let s = initialState\<lparr>currentInputTranscription := ascii '' I led a team. '',
                           currentOutputTranscription := ascii ''Tell me more.'',
                           dateReads := 7\<rparr>;
        s' = onmessage exampleEnv 1 turnCompleteOnly s
    in chatHistory s' =
         [\<lparr>role = User, msg_text = ascii '' I led a team. '',
           timestamp = 1700000000007, metadata = None\<rparr>,
          \<lparr>role = Model, msg_text = ascii ''Tell me more.'',
           timestamp = 1700000000008, metadata = None\<rparr>] \<and>
       currentInputTranscription s' = [] \<and> currentOutputTranscription s' = []) \<and>
   chatHistory (onmessage exampleEnv 1 turnCompleteOnly initialState) = []"
proof -
  let ?sc = "\<lparr>outputTranscription = None, inputTranscription = None,
        turnComplete = True, modelTurn = None, interrupted = False\<rparr>"
  let ?s = "initialState\<lparr>currentInputTranscription := ascii '' I led a team. '',
                           currentOutputTranscription := ascii ''Tell me more.'',
                           dateReads := 7\<rparr>"
  have t1: "truthy (trim (ascii '' I led a team. ''))"
    by (simp add: trim_truthy_iff ascii_def isWhiteSpace_def)
  have t2: "truthy (trim (ascii ''Tell me more.''))"
    by (simp add: trim_truthy_iff ascii_def isWhiteSpace_def)
  have a: "accumulate ?sc ?s = ?s" and b: "accumulate ?sc initialState = initialState"
    by (simp_all add: accumulate_def)
  show ?thesis
    using turnComplete_appends_turns [of turnCompleteOnly ?sc ?s exampleEnv 1]
      turnComplete_appends_turns [of turnCompleteOnly ?sc initialState exampleEnv 1] t1 t2
    unfolding a b Let_def
    by (simp add: turnCompleteOnly_def initialState_def exampleEnv_def)
qed

subsection \<open>The microphone switch\<close>

text \<open>
  Claim C9. \<open>toggleMic\<close> writes the negated flag to the state and to the ref that the
  audio-frame tap reads, and nothing else: the connection status, the session handle and
  the log of calls (no close, no connect, no send) are as before. The tap consults the
  ref before each send: with the ref off it does nothing, with the ref on it sends the
  frame.
\<close>

theorem toggleMic_keeps_connection:
  "toggleMic s = s\<lparr>isMicOnRef := \<not> isMicOn s, isMicOn := \<not> isMicOn s\<rparr> \<and>
   connectionStatus (toggleMic s) = connectionStatus s \<and>
   activeSessionRef (toggleMic s) = activeSessionRef s \<and>
   effects (toggleMic s) = effects s \<and>
   (\<not> isMicOnRef s \<longrightarrow> onaudioprocess closureStatus createPcmBlob inputData s = s) \<and>
   (isMicOnRef s \<longrightarrow>
      effects (onaudioprocess closureStatus createPcmBlob inputData s) =
        effects s @ [SendRealtimeMedia (createPcmBlob inputData)])"
  by (simp add: toggleMic_def onaudioprocess_def Let_def)

theorem toggleMic_keeps_connection_witness:
  "(let s = initialState\<lparr>connectionStatus := Connected, activeSessionRef := Some 1\<rparr>;
        off = toggleMic s
    in isMicOnRef s \<and> \<not> isMicOnRef off \<and> \<not> isMicOn off \<and>
       connectionStatus off = Connected \<and> activeSessionRef off = Some 1 \<and> effects off = [] \<and>
       onaudioprocess Listening examplePcmBlob [0.5, -0.5] off = off \<and>
       effects (onaudioprocess Listening examplePcmBlob [0.5, -0.5] s) =
         [SendRealtimeMedia (examplePcmBlob [0.5, -0.5])] \<and>
       toggleMic off = s)"
  using toggleMic_keeps_connection
      [of "initialState\<lparr>connectionStatus := Connected, activeSessionRef := Some 1\<rparr>"
          Listening examplePcmBlob "[0.5, -0.5]"]
    toggleMic_keeps_connection
      [of "toggleMic (initialState\<lparr>connectionStatus := Connected, activeSessionRef := Some 1\<rparr>)"
          Listening examplePcmBlob "[0.5, -0.5]"]
  by (simp add: initialState_def Let_def toggleMic_def)

subsection \<open>Steering\<close>

text \<open>
  Claim C10. \<open>handleSteering\<close> does nothing at all when the steering text is empty or
  consists of white space only, or when there is no session handle: the state, and so
  the transcript and the log of calls, is unchanged. Otherwise it appends exactly one
  \<open>user\<close> turn, the text prefixed with the directive marker, and makes exactly one
  call of \<open>sendRealtimeInput\<close> with a content that carries the text, whether or not
  that call throws.
\<close>

theorem handleSteering_noop_or_send:
  "((\<forall>c\<in>set (steeringInput s). isWhiteSpace c) \<or> activeSessionRef s = None \<longrightarrow>
      handleSteering e sendThrows s = s) \<and>
   ((\<exists>c\<in>set (steeringInput s). \<not> isWhiteSpace c) \<and> activeSessionRef s \<noteq> None \<longrightarrow>
      chatHistory (handleSteering e sendThrows s) = chatHistory s @
        [\<lparr>role = User, msg_text = steeringPrefix @ steeringInput s,
          timestamp = dateNow e (dateReads s), metadata = None\<rparr>] \<and>
      effects (handleSteering e sendThrows s) = effects s @
        [SendRealtimeContent (ascii ''user'')
           (ascii ''[System Instruction: '' @ steeringInput s @ ascii '']'')])"
  by (auto simp: handleSteering_def trim_truthy_iff Let_def)

theorem handleSteering_noop_or_send_witness:
  "(let s = initialState\<lparr>connectionStatus := Connected, activeSessionRef := Some 1,
                           steeringInput := ascii ''harder''\<rparr>;
        s' = handleSteering exampleEnv False s
    in chatHistory s' =
         [\<lparr>role = User, msg_text = [0x28, 0x6307, 0x4EE4, 0x29, 0x20] @ ascii ''harder'',
           timestamp = 1700000000000, metadata = None\<rparr>] \<and>
       effects s' =
         [SendRealtimeContent (ascii ''user'') (ascii ''[System Instruction: harder]'')]) \<and>
   (let s = initialState\<lparr>connectionStatus := Connected, activeSessionRef := Some 1,
                           steeringInput := [0x20, 0x3000, 0x9]\<rparr>
    in handleSteering exampleEnv False s = s) \<and>
   (let s = initialState\<lparr>steeringInput := ascii ''harder''\<rparr>
    in handleSteering exampleEnv False s = s)"
  using handleSteering_noop_or_send
      [of "initialState\<lparr>connectionStatus := Connected, activeSessionRef := Some 1,
                           steeringInput := ascii ''harder''\<rparr>" exampleEnv False]
    handleSteering_noop_or_send
      [of "initialState\<lparr>connectionStatus := Connected, activeSessionRef := Some 1,
                           steeringInput := [0x20, 0x3000, 0x9]\<rparr>" exampleEnv False]
    handleSteering_noop_or_send
      [of "initialState\<lparr>steeringInput := ascii ''harder''\<rparr>" exampleEnv False]
  by (simp add: initialState_def exampleEnv_def Let_def ascii_def isWhiteSpace_def steeringPrefix_def)

subsection \<open>The loop over the calls of a tool-call message\<close>

lemma handleCall_frame:
  "nextStartTimeRef (handleCall e s c) = nextStartTimeRef s"
  "sourcesRef (handleCall e s c) = sourcesRef s"
  by (simp_all add: handleCall_def injectCoaching_def Let_def)

lemma handleCall_effects:
  "effects (handleCall e s c) = effects s @
     (if call_name c = update_mindset
      then [SendToolResponse (call_id c) (call_name c) (ascii ''ok'')] else [])"
  by (simp add: handleCall_def injectCoaching_def Let_def)

lemma handleCalls_effects:
  "effects (foldl (handleCall e) s calls) = effects s @
     map (\<lambda>c. SendToolResponse (call_id c) (call_name c) (ascii ''ok''))
       (filter (\<lambda>c. call_name c = update_mindset) calls)"
  by (induction calls arbitrary: s) (simp_all add: handleCall_effects)

lemma handleCalls_nextStartTimeRef:
  "nextStartTimeRef (foldl (handleCall e) s calls) = nextStartTimeRef s"
  by (induction calls arbitrary: s) (simp_all add: handleCall_frame)

subsection \<open>The playback schedule\<close>

lemma segments_append: "segments (xs @ ys) = segments xs @ segments ys"
  by (induction xs rule: segments.induct) simp_all

lemma segments_responses:
  "segments (map (\<lambda>c. SendToolResponse (f c) (g c) r) cs) = []"
  by (induction cs) simp_all

lemma duration_nonneg: "0 \<le> duration b"
  by (simp add: duration_def)

lemma start_bound: "n \<le> max n now + duration b"
  using duration_nonneg [of b] by (simp add: max_def)

lemma early_steps_frame:
  "effects (completeTurn e sc (accumulate sc s)) = effects s"
  "nextStartTimeRef (completeTurn e sc (accumulate sc s)) = nextStartTimeRef s"
  "nodeCount (completeTurn e sc (accumulate sc s)) = nodeCount s"
  by (simp_all add: completeTurn_def accumulate_def Let_def split: option.splits)

lemma audioOutput_step:
  "\<exists>new. effects (case_sum id id (audioOutput e now sc s)) = effects s @ new \<and>
     nextStartTimeRef s \<le> nextStartTimeRef (case_sum id id (audioOutput e now sc s)) \<and>
     (new = [] \<or>
      (\<exists>n t d. new = [SourceStart n t d] \<and> nextStartTimeRef s \<le> t \<and> 0 \<le> d \<and>
         t + d = nextStartTimeRef (case_sum id id (audioOutput e now sc s))))"
  by (auto simp: audioOutput_def Let_def duration_nonneg start_bound split: option.splits)

lemma onmessage_step:
  assumes "\<not> interrupts m"
  shows "\<exists>new. effects (onmessage e now m s) = effects s @ new \<and>
     nextStartTimeRef s \<le> nextStartTimeRef (onmessage e now m s) \<and>
     (segments new = [] \<or>
      (\<exists>t d. segments new = [(t, d)] \<and> nextStartTimeRef s \<le> t \<and> 0 \<le> d \<and>
         t + d = nextStartTimeRef (onmessage e now m s)))"
proof (cases "toolCall m")
  case (Some calls)
  then show ?thesis
    by (simp add: onmessage_def handleCalls_effects handleCalls_nextStartTimeRef
          segments_responses)
next
  case None
  show ?thesis
  proof (cases "serverContent m")
    case None
    with \<open>toolCall m = None\<close> show ?thesis by (simp add: onmessage_def)
  next
    case (Some sc)
    let ?s0 = "completeTurn e sc (accumulate sc s)"
    have ni: "\<not> interrupted sc" using assms Some by (simp add: interrupts_def)
    have om: "onmessage e now m s = case_sum id id (audioOutput e now sc ?s0)"
      using \<open>toolCall m = None\<close> Some ni
      by (simp add: onmessage_def interrupt_def split: sum.splits)
    from audioOutput_step [of e now sc ?s0] obtain new where
      "effects (onmessage e now m s) = effects s @ new"
      "nextStartTimeRef s \<le> nextStartTimeRef (onmessage e now m s)"
      "new = [] \<or> (\<exists>n t d. new = [SourceStart n t d] \<and> nextStartTimeRef s \<le> t \<and> 0 \<le> d \<and>
         t + d = nextStartTimeRef (onmessage e now m s))"
      unfolding om early_steps_frame by blast
    then show ?thesis by (intro exI [of _ new]) auto
  qed
qed

lemma gapless_snoc:
  assumes "gapless segs" and "\<forall>x\<in>set segs. fst x + snd x \<le> n" and "n \<le> t"
  shows "gapless (segs @ [(t, d)])"
  unfolding gapless_def
proof (intro allI impI)
  fix i assume i: "Suc i < length (segs @ [(t, d)])"
  show "fst ((segs @ [(t, d)]) ! i) + snd ((segs @ [(t, d)]) ! i) \<le> fst ((segs @ [(t, d)]) ! Suc i)"
  proof (cases "Suc i < length segs")
    case True
    then show ?thesis using assms(1) by (simp add: gapless_def nth_append)
  next
    case False
    with i have eq: "Suc i = length segs" by simp
    then have "segs ! i \<in> set segs" by simp
    then have "fst (segs ! i) + snd (segs ! i) \<le> t" using assms(2,3) by fastforce
    then show ?thesis using eq by (simp add: nth_append)
  qed
qed

lemma schedule_step:
  assumes "\<not> interrupts m" and "k \<le> length (effects s)"
    and "gapless (scheduledSince k s)"
    and "\<forall>x\<in>set (scheduledSince k s). fst x + snd x \<le> nextStartTimeRef s"
  shows "k \<le> length (effects (onmessage e now m s)) \<and>
         gapless (scheduledSince k (onmessage e now m s)) \<and>
         (\<forall>x\<in>set (scheduledSince k (onmessage e now m s)).
            fst x + snd x \<le> nextStartTimeRef (onmessage e now m s)) \<and>
         nextStartTimeRef s \<le> nextStartTimeRef (onmessage e now m s)"
proof -
  obtain new where new: "effects (onmessage e now m s) = effects s @ new"
    and mono: "nextStartTimeRef s \<le> nextStartTimeRef (onmessage e now m s)"
    and seg: "segments new = [] \<or>
      (\<exists>t d. segments new = [(t, d)] \<and> nextStartTimeRef s \<le> t \<and> 0 \<le> d \<and>
         t + d = nextStartTimeRef (onmessage e now m s))"
    using onmessage_step [OF assms(1)] by blast
  have since: "scheduledSince k (onmessage e now m s) = scheduledSince k s @ segments new"
    using assms(2) by (simp add: scheduledSince_def new segments_append)
  have len: "k \<le> length (effects (onmessage e now m s))"
    using assms(2) by (simp add: new)
  have old_bound: "\<forall>x\<in>set (scheduledSince k s).
      fst x + snd x \<le> nextStartTimeRef (onmessage e now m s)"
  proof
    fix x assume "x \<in> set (scheduledSince k s)"
    then have "fst x + snd x \<le> nextStartTimeRef s" using assms(4) by blast
    then show "fst x + snd x \<le> nextStartTimeRef (onmessage e now m s)"
      using mono by linarith
  qed
  from seg show ?thesis
  proof
    assume "segments new = []"
    then have "scheduledSince k (onmessage e now m s) = scheduledSince k s"
      by (simp add: since)
    then show ?thesis using assms(3) old_bound mono len by simp
  next
    assume "\<exists>t d. segments new = [(t, d)] \<and> nextStartTimeRef s \<le> t \<and> 0 \<le> d \<and>
         t + d = nextStartTimeRef (onmessage e now m s)"
    then obtain t d where td: "segments new = [(t, d)]" "nextStartTimeRef s \<le> t" "0 \<le> d"
      "t + d = nextStartTimeRef (onmessage e now m s)" by blast
    have g: "gapless (scheduledSince k (onmessage e now m s))"
      unfolding since td(1) using gapless_snoc [OF assms(3,4) td(2)] .
    have b: "\<forall>x\<in>set (scheduledSince k (onmessage e now m s)).
            fst x + snd x \<le> nextStartTimeRef (onmessage e now m s)"
      unfolding since td(1) using old_bound td(4) by simp
    show ?thesis using g b mono len by simp
  qed
qed

lemma schedule_run:
  assumes "\<forall>nm\<in>set ms. \<not> interrupts (snd nm)" and "k \<le> length (effects s)"
    and "gapless (scheduledSince k s)"
    and "\<forall>x\<in>set (scheduledSince k s). fst x + snd x \<le> nextStartTimeRef s"
  shows "gapless (scheduledSince k (run e ms s)) \<and>
         nextStartTimeRef s \<le> nextStartTimeRef (run e ms s)"
  using assms
proof (induction ms arbitrary: s)
  case Nil
  then show ?case by (simp add: run_def)
next
  case (Cons nm ms)
  let ?s1 = "onmessage e (fst nm) (snd nm) s"
  have ni: "\<not> interrupts (snd nm)" using Cons.prems(1) by simp
  have step: "k \<le> length (effects ?s1) \<and> gapless (scheduledSince k ?s1) \<and>
      (\<forall>x\<in>set (scheduledSince k ?s1). fst x + snd x \<le> nextStartTimeRef ?s1) \<and>
      nextStartTimeRef s \<le> nextStartTimeRef ?s1"
    using schedule_step [OF ni Cons.prems(2,3,4)] .
  have rest: "\<forall>nm\<in>set ms. \<not> interrupts (snd nm)" using Cons.prems(1) by simp
  have "gapless (scheduledSince k (run e ms ?s1)) \<and>
        nextStartTimeRef ?s1 \<le> nextStartTimeRef (run e ms ?s1)"
    using Cons.IH [OF rest] step by blast
  moreover have "run e (nm # ms) s = run e ms ?s1" by (simp add: run_def)
  ultimately show ?case using step by simp
qed

lemma run_append: "run e (xs @ ys) s = run e ys (run e xs s)"
  by (simp add: run_def)

lemma run_monotone:
  assumes "\<forall>nm\<in>set ms. \<not> interrupts (snd nm)"
  shows "nextStartTimeRef s \<le> nextStartTimeRef (run e ms s)"
proof -
  have "scheduledSince (length (effects s)) s = []" by (simp add: scheduledSince_def)
  then show ?thesis
    using schedule_run [OF assms, of "length (effects s)" s e] by (simp add: gapless_def)
qed

text \<open>
  Claim C1. A message with decodable audio (no tool call, no interruption) starts one
  node at the maximum of the scheduling clock and the output clock's current time, and
  then advances the scheduling clock to that start plus the buffer's duration. Over any
  sequence of messages without an interruption, from any state, the segments scheduled
  during the run do not overlap (each starts no earlier than the one before it ends),
  and the scheduling clock, the cumulative scheduled end, never decreases along the run.
\<close>

theorem audio_schedule_non_overlapping:
  "(toolCall m = None \<and> serverContent m = Some sc \<and> \<not> interrupted sc \<and>
    base64Audio sc = Some b \<and> truthy b \<and> decodedAudio e b = Some audioBuffer \<longrightarrow>
      effects (onmessage e now m s) = effects s @
        [SourceStart (nodeCount s) (max (nextStartTimeRef s) now) (duration audioBuffer)] \<and>
      nextStartTimeRef (onmessage e now m s) =
        max (nextStartTimeRef s) now + duration audioBuffer) \<and>
   ((\<forall>nm\<in>set ms. \<not> interrupts (snd nm)) \<longrightarrow>
      (\<forall>i. Suc i < length (segments (drop (length (effects s)) (effects (run e ms s)))) \<longrightarrow>
         fst (segments (drop (length (effects s)) (effects (run e ms s))) ! i) +
         snd (segments (drop (length (effects s)) (effects (run e ms s))) ! i)
         \<le> fst (segments (drop (length (effects s)) (effects (run e ms s))) ! Suc i)) \<and>
      (\<forall>j k. j \<le> k \<and> k \<le> length ms \<longrightarrow>
         nextStartTimeRef (run e (take j ms) s) \<le> nextStartTimeRef (run e (take k ms) s)))"
proof (intro conjI impI)
  assume a: "toolCall m = None \<and> serverContent m = Some sc \<and> \<not> interrupted sc \<and>
    base64Audio sc = Some b \<and> truthy b \<and> decodedAudio e b = Some audioBuffer"
  then show "effects (onmessage e now m s) = effects s @
        [SourceStart (nodeCount s) (max (nextStartTimeRef s) now) (duration audioBuffer)]"
    by (simp add: onmessage_def audioOutput_def interrupt_def Let_def early_steps_frame)
  from a show "nextStartTimeRef (onmessage e now m s) =
        max (nextStartTimeRef s) now + duration audioBuffer"
    by (simp add: onmessage_def audioOutput_def interrupt_def Let_def early_steps_frame)
next
  assume ni: "\<forall>nm\<in>set ms. \<not> interrupts (snd nm)"
  have "scheduledSince (length (effects s)) s = []" by (simp add: scheduledSince_def)
  then have "gapless (scheduledSince (length (effects s)) (run e ms s))"
    using schedule_run [OF ni, of "length (effects s)" s e] by (simp add: gapless_def)
  then show "\<forall>i. Suc i < length (segments (drop (length (effects s)) (effects (run e ms s)))) \<longrightarrow>
         fst (segments (drop (length (effects s)) (effects (run e ms s))) ! i) +
         snd (segments (drop (length (effects s)) (effects (run e ms s))) ! i)
         \<le> fst (segments (drop (length (effects s)) (effects (run e ms s))) ! Suc i)"
    by (simp add: gapless_def scheduledSince_def)
  show "\<forall>j k. j \<le> k \<and> k \<le> length ms \<longrightarrow>
         nextStartTimeRef (run e (take j ms) s) \<le> nextStartTimeRef (run e (take k ms) s)"
  proof (intro allI impI)
    fix j k assume jk: "j \<le> k \<and> k \<le> length ms"
    have "take j (take k ms) @ drop j (take k ms) = take k ms"
      by (rule append_take_drop_id)
    moreover have "take j (take k ms) = take j ms"
      using jk by (simp add: min_absorb1)
    ultimately have "take k ms = take j ms @ drop j (take k ms)" by simp
    then have eq: "run e (take k ms) s = run e (drop j (take k ms)) (run e (take j ms) s)"
      using run_append [of e "take j ms" "drop j (take k ms)" s] by simp
    have "\<forall>nm\<in>set (drop j (take k ms)). \<not> interrupts (snd nm)"
    proof
      fix nm assume "nm \<in> set (drop j (take k ms))"
      then have "nm \<in> set ms" by (blast dest: in_set_dropD in_set_takeD)
      then show "\<not> interrupts (snd nm)" using ni by blast
    qed
    then show "nextStartTimeRef (run e (take j ms) s) \<le> nextStartTimeRef (run e (take k ms) s)"
      unfolding eq by (rule run_monotone)
  qed
qed

lemma run_exampleChunks:
  "effects (run exampleEnv exampleChunks initialState) =
     [SourceStart 0 5 (1 / 10), SourceStart 1 (51 / 10) (1 / 5), SourceStart 2 7 (1 / 10)]"
  "nextStartTimeRef (run exampleEnv exampleChunks initialState) = 71 / 10"
  by (simp_all add: run_def exampleChunks_def audioChunk_def onmessage_def accumulate_def
        completeTurn_def audioOutput_def base64Audio_def interrupt_def exampleEnv_def
        initialState_def ascii_def truthy_def duration_def Let_def)

theorem audio_schedule_non_overlapping_witness:
  "list_all (\<lambda>nm. \<not> interrupts (snd nm)) exampleChunks \<and>
   segments (effects (run exampleEnv exampleChunks initialState)) =
     [(5, 1 / 10), (51 / 10, 1 / 5), (7, 1 / 10)] \<and>
   (5 :: real) + 1 / 10 \<le> 51 / 10 \<and> (51 / 10 :: real) + 1 / 5 \<le> 7 \<and>
   effects (onmessage exampleEnv 5 (audioChunk (ascii ''AAAA'')) initialState) =
     [SourceStart 0 5 (1 / 10)] \<and>
   nextStartTimeRef (onmessage exampleEnv 5 (audioChunk (ascii ''AAAA'')) initialState) = 51 / 10 \<and>
   nextStartTimeRef (run exampleEnv (take 1 exampleChunks) initialState)
     \<le> nextStartTimeRef (run exampleEnv (take 3 exampleChunks) initialState)"
proof -
  have ni: "\<forall>nm\<in>set exampleChunks. \<not> interrupts (snd nm)"
    by (simp add: exampleChunks_def audioChunk_def interrupts_def)
  have dec: "decodedAudio exampleEnv (ascii ''AAAA'') = Some \<lparr>frames = 2400, sampleRate = 24000\<rparr>"
    by (simp add: exampleEnv_def ascii_def)
  note t = audio_schedule_non_overlapping
      [of "audioChunk (ascii ''AAAA'')"
          "\<lparr>outputTranscription = None, inputTranscription = None, turnComplete = False,
            modelTurn = Some [\<lparr>inlineData = Some (ascii ''AAAA'')\<rparr>], interrupted = False\<rparr>"
          "ascii ''AAAA''" exampleEnv "\<lparr>frames = 2400, sampleRate = 24000\<rparr>" 5 initialState
          exampleChunks]
  have single: "effects (onmessage exampleEnv 5 (audioChunk (ascii ''AAAA'')) initialState) =
      [SourceStart 0 5 (1 / 10)] \<and>
    nextStartTimeRef (onmessage exampleEnv 5 (audioChunk (ascii ''AAAA'')) initialState) = 51 / 10"
    using t dec
    by (simp add: audioChunk_def base64Audio_def truthy_def ascii_def initialState_def duration_def)
  have seq: "\<forall>i. Suc i < length (segments (effects (run exampleEnv exampleChunks initialState))) \<longrightarrow>
         fst (segments (effects (run exampleEnv exampleChunks initialState)) ! i) +
         snd (segments (effects (run exampleEnv exampleChunks initialState)) ! i)
         \<le> fst (segments (effects (run exampleEnv exampleChunks initialState)) ! Suc i)"
    and mon: "\<forall>j k. j \<le> k \<and> k \<le> length exampleChunks \<longrightarrow>
         nextStartTimeRef (run exampleEnv (take j exampleChunks) initialState)
         \<le> nextStartTimeRef (run exampleEnv (take k exampleChunks) initialState)"
    using t ni by (simp_all add: initialState_def)
  have len: "length exampleChunks = 3" by (simp add: exampleChunks_def)
  have m13: "nextStartTimeRef (run exampleEnv (take 1 exampleChunks) initialState)
     \<le> nextStartTimeRef (run exampleEnv (take 3 exampleChunks) initialState)"
    using mon [rule_format, of 1 3] len by simp
  have segs: "segments (effects (run exampleEnv exampleChunks initialState)) =
     [(5, 1 / 10), (51 / 10, 1 / 5), (7, 1 / 10)]"
    by (simp add: run_exampleChunks)
  have "(5 :: real) + 1 / 10 \<le> 51 / 10" using seq [rule_format, of 0] unfolding segs by simp
  moreover have "(51 / 10 :: real) + 1 / 5 \<le> 7" using seq [rule_format, of 1] unfolding segs by simp
  ultimately show ?thesis
    using single m13 segs ni by (simp add: list_all_iff)
qed

subsection \<open>Tool calls\<close>

lemma handleCall_mindset:
  "mindset (handleCall e s c) = (if call_name c = update_mindset then call_args c else mindset s)"
  by (simp add: handleCall_def injectCoaching_def Let_def)

lemma handleCalls_mindset:
  "filter (\<lambda>c. call_name c = update_mindset) calls \<noteq> [] \<Longrightarrow>
   mindset (foldl (handleCall e) s calls) =
     call_args (last (filter (\<lambda>c. call_name c = update_mindset) calls))"
proof (induction calls rule: rev_induct)
  case Nil
  then show ?case by simp
next
  case (snoc c calls)
  show ?case
  proof (cases "call_name c = update_mindset")
    case True
    then show ?thesis by (simp add: handleCall_mindset)
  next
    case False
    then have "filter (\<lambda>c. call_name c = update_mindset) calls \<noteq> []"
      using snoc.prems by simp
    then show ?thesis using snoc.IH False by (simp add: handleCall_mindset)
  qed
qed

lemma injectCoaching_bare:
  "bareMindset m \<Longrightarrow> chatHistory (injectCoaching e m s) = chatHistory s"
  by (simp add: bareMindset_def injectCoaching_def pushFeedback_def pushReference_def
        pushHint_def Let_def)

lemma handleCall_bare:
  "call_name c = update_mindset \<longrightarrow> bareMindset (call_args c) \<Longrightarrow>
   chatHistory (handleCall e s c) = chatHistory s"
  by (simp add: handleCall_def Let_def injectCoaching_bare)

lemma handleCalls_bare:
  "\<forall>c\<in>set calls. call_name c = update_mindset \<longrightarrow> bareMindset (call_args c) \<Longrightarrow>
   chatHistory (foldl (handleCall e) s calls) = chatHistory s"
  by (induction calls arbitrary: s) (simp_all add: handleCall_bare)

text \<open>
  Claim C2. On a tool-call message the handler acknowledges every \<open>update_mindset\<close>
  call, in order, with a tool response that carries the call's id and name and the
  result \<open>ok\<close>, and makes no other call; the mindset afterwards is the arguments of
  the (last) \<open>update_mindset\<close> call. When the arguments hold \<open>mood\<close> and
  \<open>internal_thought\<close> only, the transcript is unchanged, and the mindset is updated
  and the acknowledgment sent all the same.
\<close>

theorem toolCall_updates_mindset_and_acknowledges:
  assumes "toolCall message = Some calls"
  shows "effects (onmessage e now message s) = effects s @
           map (\<lambda>c. SendToolResponse (call_id c) (call_name c) (ascii ''ok''))
             (filter (\<lambda>c. call_name c = update_mindset) calls) \<and>
         (filter (\<lambda>c. call_name c = update_mindset) calls \<noteq> [] \<longrightarrow>
            mindset (onmessage e now message s) =
              call_args (last (filter (\<lambda>c. call_name c = update_mindset) calls))) \<and>
         ((\<forall>c\<in>set calls. call_name c = update_mindset \<longrightarrow> bareMindset (call_args c)) \<longrightarrow>
            chatHistory (onmessage e now message s) = chatHistory s)"
  using assms
  by (simp add: onmessage_def handleCalls_effects handleCalls_mindset handleCalls_bare)

theorem toolCall_updates_mindset_and_acknowledges_witness:
  "bareMindset (call_args bareCall) \<and>
   mindset (onmessage exampleEnv 1 (toolCallMessage [bareCall]) initialState) =
     call_args bareCall \<and>
   effects (onmessage exampleEnv 1 (toolCallMessage [bareCall]) initialState) =
     [SendToolResponse (Some (ascii ''call-1'')) (ascii ''update_mindset'') (ascii ''ok'')] \<and>
   chatHistory (onmessage exampleEnv 1 (toolCallMessage [bareCall]) initialState) = []"
  using toolCall_updates_mindset_and_acknowledges
      [of "toolCallMessage [bareCall]" "[bareCall]" exampleEnv 1 initialState]
  by (simp add: toolCallMessage_def bareCall_def bareMindset_def update_mindset_def
        initialState_def)

subsection \<open>Coaching turns\<close>

lemma coaching_history:
  "chatHistory (injectCoaching e m s) =
     chatHistory s @ drop (length (chatHistory s)) (chatHistory (injectCoaching e m s))"
  by (simp add: injectCoaching_def pushFeedback_def pushReference_def pushHint_def Let_def
        split: option.splits)

lemma coaching_roles:
  "map role (drop (length (chatHistory s)) (chatHistory (injectCoaching e m s))) =
     (if adviceGiven m then [CoachFeedback] else []) @
     (if referenceGiven m then [CoachReference] else []) @
     (if tipsGiven m then [CoachHint] else [])"
  by (simp add: injectCoaching_def pushFeedback_def pushReference_def pushHint_def Let_def
        adviceGiven_def referenceGiven_def tipsGiven_def truthy_def split: option.splits)

lemma coaching_texts:
  "map msg_text (drop (length (chatHistory s)) (chatHistory (injectCoaching e m s))) =
     filter (\<lambda>t. t \<noteq> [])
       ((case last_answer_feedback m of
           None \<Rightarrow> []
         | Some fb \<Rightarrow> (case advice fb of None \<Rightarrow> [] | Some a \<Rightarrow> [a])) @
        (case reference_answer_for_question m of None \<Rightarrow> [] | Some r \<Rightarrow> [r]) @
        (case suggested_answer_tips m of None \<Rightarrow> [] | Some t \<Rightarrow> [t]))"
  by (simp add: injectCoaching_def pushFeedback_def pushReference_def pushHint_def Let_def
        truthy_def split: option.splits)

lemma handleCall_history:
  "call_name c = update_mindset \<Longrightarrow>
   chatHistory (handleCall e s c) = chatHistory (injectCoaching e (call_args c) s)"
  by (simp add: handleCall_def injectCoaching_def Let_def)

lemma coaching_timestamps:
  assumes "\<forall>k. dateNow e k < dateNow e (Suc k) + 50"
  shows "sorted_wrt (<)
           (map timestamp (drop (length (chatHistory s)) (chatHistory (injectCoaching e m s))))"
proof -
  have a: "dateNow e (dateReads s) < dateNow e (Suc (dateReads s)) + 50"
    and b: "dateNow e (Suc (dateReads s)) < dateNow e (Suc (Suc (dateReads s))) + 50"
    using assms by blast+
  show ?thesis
    using a b
    by (simp add: injectCoaching_def pushFeedback_def pushReference_def pushHint_def Let_def
          split: option.splits)
qed

text \<open>
  Claim C5, as stated, at a concrete input: a call whose arguments carry all three
  coaching fields, each an empty string (the tool's description asks the model to leave
  the feedback empty at the start of an interview). Every field is present, and no turn
  is appended.
\<close>

theorem coaching_present_but_empty_counterexample:
  "Option.bind (last_answer_feedback (call_args blankCall)) advice = Some [] \<and>
   reference_answer_for_question (call_args blankCall) = Some [] \<and>
   suggested_answer_tips (call_args blankCall) = Some [] \<and>
   call_name blankCall = update_mindset \<and>
   chatHistory (onmessage exampleEnv 1 (toolCallMessage [blankCall]) initialState) =
     chatHistory initialState"
  by (simp add: blankCall_def toolCallMessage_def onmessage_def handleCall_def
        injectCoaching_def pushFeedback_def pushReference_def pushHint_def truthy_def
        update_mindset_def initialState_def Let_def)

text \<open>
  Claim C5, amended. On an \<open>update_mindset\<close> call the turns appended are, in this
  order, a coach-feedback turn when the advice is present and not empty, a coach-reference
  turn when the reference answer is present and not empty, a coach-hint turn when the tips
  are present and not empty, each with its field as text. A turn's timestamp is the clock
  at its push plus 0, 50 and 100 ms; as long as the clock does not fall back by 50 ms or
  more from one read to the next, the timestamps are strictly increasing and sorting the
  new turns by timestamp leaves their order as it is.
\<close>

theorem coaching_turns_in_fixed_order:
  assumes "toolCall message = Some [c]" and "call_name c = update_mindset"
  shows "chatHistory (onmessage e now message s) =
           chatHistory s @ drop (length (chatHistory s)) (chatHistory (onmessage e now message s)) \<and>
         map role (drop (length (chatHistory s)) (chatHistory (onmessage e now message s))) =
           (if adviceGiven (call_args c) then [CoachFeedback] else []) @
           (if referenceGiven (call_args c) then [CoachReference] else []) @
           (if tipsGiven (call_args c) then [CoachHint] else []) \<and>
         map msg_text (drop (length (chatHistory s)) (chatHistory (onmessage e now message s))) =
           filter (\<lambda>t. t \<noteq> [])
             ((case last_answer_feedback (call_args c) of
                 None \<Rightarrow> []
               | Some fb \<Rightarrow> (case advice fb of None \<Rightarrow> [] | Some a \<Rightarrow> [a])) @
              (case reference_answer_for_question (call_args c) of None \<Rightarrow> [] | Some r \<Rightarrow> [r]) @
              (case suggested_answer_tips (call_args c) of None \<Rightarrow> [] | Some t \<Rightarrow> [t])) \<and>
         ((\<forall>k. dateNow e k < dateNow e (Suc k) + 50) \<longrightarrow>
            sorted_wrt (<)
              (map timestamp
                (drop (length (chatHistory s)) (chatHistory (onmessage e now message s)))) \<and>
            sort_key timestamp
              (drop (length (chatHistory s)) (chatHistory (onmessage e now message s))) =
              drop (length (chatHistory s)) (chatHistory (onmessage e now message s)))"
proof -
  let ?m = "call_args c"
  have h: "chatHistory (onmessage e now message s) = chatHistory (injectCoaching e ?m s)"
    using assms by (simp add: onmessage_def handleCall_history)
  have sorted_id: "sort_key timestamp
        (drop (length (chatHistory s)) (chatHistory (injectCoaching e ?m s))) =
      drop (length (chatHistory s)) (chatHistory (injectCoaching e ?m s))"
    if "\<forall>k. dateNow e k < dateNow e (Suc k) + 50"
  proof -
    have "sorted_wrt (<) (map timestamp
        (drop (length (chatHistory s)) (chatHistory (injectCoaching e ?m s))))"
      using that by (rule coaching_timestamps)
    then have "sorted (map timestamp
        (drop (length (chatHistory s)) (chatHistory (injectCoaching e ?m s))))"
      by (rule strict_sorted_imp_sorted)
    then show ?thesis by (rule sort_key_id_if_sorted)
  qed
  show ?thesis
    unfolding h
    using coaching_history [of e ?m s] coaching_roles [of s e ?m] coaching_texts [of s e ?m]
      coaching_timestamps [of e s ?m] sorted_id
    by blast
qed

theorem coaching_turns_in_fixed_order_witness:
  "(\<forall>k. dateNow exampleEnv k < dateNow exampleEnv (Suc k) + 50) \<and>
   chatHistory (onmessage exampleEnv 1 (toolCallMessage [fullCall]) initialState) =
     [\<lparr>role = CoachFeedback, msg_text = ascii ''be concrete'', timestamp = 1700000000000,
       metadata = Some \<lparr>md_score = Some (ascii ''8/10''),
                         refined_answer = Some (ascii ''I shipped it'')\<rparr>\<rparr>,
      \<lparr>role = CoachReference, msg_text = ascii ''I led a team of 5'',
       timestamp = 1700000000051, metadata = None\<rparr>,
      \<lparr>role = CoachHint, msg_text = ascii ''use numbers'', timestamp = 1700000000102,
       metadata = None\<rparr>] \<and>
   sort_key timestamp (chatHistory (onmessage exampleEnv 1 (toolCallMessage [fullCall]) initialState)) =
     chatHistory (onmessage exampleEnv 1 (toolCallMessage [fullCall]) initialState)"
proof -
  have clock: "\<forall>k. dateNow exampleEnv k < dateNow exampleEnv (Suc k) + 50"
    by (simp add: exampleEnv_def)
  have eval: "chatHistory (onmessage exampleEnv 1 (toolCallMessage [fullCall]) initialState) =
     [\<lparr>role = CoachFeedback, msg_text = ascii ''be concrete'', timestamp = 1700000000000,
       metadata = Some \<lparr>md_score = Some (ascii ''8/10''),
                         refined_answer = Some (ascii ''I shipped it'')\<rparr>\<rparr>,
      \<lparr>role = CoachReference, msg_text = ascii ''I led a team of 5'',
       timestamp = 1700000000051, metadata = None\<rparr>,
      \<lparr>role = CoachHint, msg_text = ascii ''use numbers'', timestamp = 1700000000102,
       metadata = None\<rparr>]"
    by (simp add: fullCall_def toolCallMessage_def onmessage_def handleCall_def
        injectCoaching_def pushFeedback_def pushReference_def pushHint_def truthy_def
        update_mindset_def initialState_def exampleEnv_def ascii_def Let_def)
  have "sort_key timestamp
      (drop (length (chatHistory initialState))
        (chatHistory (onmessage exampleEnv 1 (toolCallMessage [fullCall]) initialState))) =
      drop (length (chatHistory initialState))
        (chatHistory (onmessage exampleEnv 1 (toolCallMessage [fullCall]) initialState))"
    using coaching_turns_in_fixed_order
        [of "toolCallMessage [fullCall]" fullCall exampleEnv 1 initialState] clock
    by (simp add: toolCallMessage_def fullCall_def update_mindset_def)
  then show ?thesis using eval clock by (simp add: initialState_def)
qed

subsection \<open>The transcript replayed on a retry\<close>

text \<open>
  Claim C6, as stated, at a concrete input: a transcript of 25 turns, in five rounds of
  hint, reference answer, question, answer and feedback. The replay would hold the most
  recent 20 turns and no others; it holds the ten spoken turns, among them the
  interviewer's first question, which is not one of the most recent 20 turns.
\<close>

theorem replay_coached_transcript_counterexample:
  "length coachedTranscript = 25 \<and>
   exampleTurn Model 2 \<in> set (replayTurns coachedTranscript) \<and>
   exampleTurn Model 2 \<notin> set (slice_last 20 coachedTranscript) \<and>
   length (replayTurns coachedTranscript) = 10"
  by (simp add: coachedTranscript_def replayTurns_def slice_last_def exampleTurn_def)

text \<open>
  Claim C6, amended. On a retry with a non-empty transcript (the one in
  \<open>chatHistoryRef\<close>), the instruction is the persona instruction, the restoration
  header and the replayed turns, one line each, joined by line feeds. The replayed turns
  are the most recent 20 of the candidate's and the interviewer's turns, oldest first
  (all of them when there are at most 20); the coaching turns are left out before the
  last 20 are taken. A line is \<open>Candidate: \<close> or \<open>Interviewer: \<close> followed by the
  turn's text. For a transcript without coaching turns those are the most recent 20
  turns of the transcript. Without a retry, or with an empty transcript, the instruction
  is the persona instruction as it is.
\<close>

theorem replay_last_twenty_spoken_turns:
  "(isRetry \<and> h \<noteq> [] \<longrightarrow>
      finalSystemInstruction systemInstruction isRetry h =
        systemInstruction @ restoredHeader @ join [0xA] (map transcriptLine (replayTurns h))) \<and>
   (\<not> isRetry \<or> h = [] \<longrightarrow> finalSystemInstruction systemInstruction isRetry h = systemInstruction) \<and>
   suffix (replayTurns h) (filter (\<lambda>m. role m = User \<or> role m = Model) h) \<and>
   length (replayTurns h) = min 20 (length (filter (\<lambda>m. role m = User \<or> role m = Model) h)) \<and>
   transcriptLine msg =
     (if role msg = User then ascii ''Candidate'' else ascii ''Interviewer'') @ ascii '': '' @
     msg_text msg \<and>
   ((\<forall>m\<in>set h. role m = User \<or> role m = Model) \<longrightarrow> replayTurns h = slice_last 20 h)"
proof -
  have "filter (\<lambda>m. role m = User \<or> role m = Model) h = h"
    if "\<forall>m\<in>set h. role m = User \<or> role m = Model"
    using that by simp
  then show ?thesis
    by (auto simp: finalSystemInstruction_def restoredHeader_def replayTurns_def
          suffix_drop transcriptLine_def Let_def slice_last_def)
qed

theorem replay_last_twenty_spoken_turns_witness:
  "length spokenTranscript = 25 \<and>
   replayTurns spokenTranscript = drop 5 spokenTranscript \<and>
   length (replayTurns coachedTranscript) = 10 \<and>
   finalSystemInstruction (ascii ''Be strict.'') True
       [exampleTurn Model 0, exampleTurn CoachFeedback 1, exampleTurn User 2] =
     ascii ''Be strict.'' @ [0xA, 0xA] @
     ascii ''[SYSTEM: CONNECTION RESTORED] Resume the interview. Transcript:'' @ [0xA] @
     ascii ''Interviewer: ok'' @ [0xA] @ ascii ''Candidate: ok''"
proof -
  have all: "\<forall>m\<in>set spokenTranscript. role m = User \<or> role m = Model"
    by (simp add: spokenTranscript_def exampleTurn_def)
  have len: "length spokenTranscript = 25"
    by (simp add: spokenTranscript_def)
  have a: "replayTurns spokenTranscript = drop 5 spokenTranscript"
    using replay_last_twenty_spoken_turns [of True spokenTranscript "[]" "exampleTurn User 0"] all len
    by (simp add: slice_last_def)
  have b: "length (replayTurns coachedTranscript) = 10"
    using replay_last_twenty_spoken_turns [of True coachedTranscript "[]" "exampleTurn User 0"]
    by (simp add: coachedTranscript_def exampleTurn_def)
  have c: "finalSystemInstruction (ascii ''Be strict.'') True
       [exampleTurn Model 0, exampleTurn CoachFeedback 1, exampleTurn User 2] =
     ascii ''Be strict.'' @ [0xA, 0xA] @
     ascii ''[SYSTEM: CONNECTION RESTORED] Resume the interview. Transcript:'' @ [0xA] @
     ascii ''Interviewer: ok'' @ [0xA] @ ascii ''Candidate: ok''"
    using replay_last_twenty_spoken_turns [of True
        "[exampleTurn Model 0, exampleTurn CoachFeedback 1, exampleTurn User 2]"
        "ascii ''Be strict.''" "exampleTurn User 0"]
    by (simp add: restoredHeader_def replayTurns_def slice_last_def exampleTurn_def
          transcriptLine_def ascii_def)
  show ?thesis using a b c len by simp
qed

subsection \<open>The audio codec\<close>

lemma int16_round_trip:
  assumes "- 32768 \<le> v" and "v \<le> 32767"
  shows "int16_of (word_of_int v) (word_of_int (v div 256)) = v"
proof -
  have lo: "uint (word_of_int v :: 8 word) = v mod 256"
    by (simp add: uint_word_of_int take_bit_eq_mod)
  have hi: "uint (word_of_int (v div 256) :: 8 word) = (v div 256) mod 256"
    by (simp add: uint_word_of_int take_bit_eq_mod)
  have u: "v mod 256 + 256 * ((v div 256) mod 256) = v mod 65536"
    using zmod_zmult2_eq [of 256 v 256] by simp
  show ?thesis
  proof (cases "0 \<le> v")
    case True
    then have "v mod 65536 = v" using assms by simp
    then show ?thesis using assms by (simp add: int16_of_def lo hi u Let_def)
  next
    case False
    then have "(v + 65536) mod 65536 = v + 65536"
      using assms by (intro mod_pos_pos_trivial) simp_all
    then have "v mod 65536 = v + 65536" by simp
    then show ?thesis using assms False by (simp add: int16_of_def lo hi u Let_def)
  qed
qed

lemma quantize_range: "- 32768 \<le> quantize x \<and> quantize x \<le> 32767"
  by (simp add: quantize_def)

lemma normalized_encode:
  "normalized (concat (map (\<lambda>x. int16_bytes (quantize x)) samples)) =
     map (\<lambda>x. real_of_int (quantize x) / 32768) samples"
  by (induction samples) (simp_all add: int16_bytes_def int16_round_trip quantize_range)

lemma quantize_error:
  assumes "- 1 \<le> x" and "x \<le> 1"
  shows "\<bar>real_of_int (quantize x) / 32768 - x\<bar> \<le> 1 / 32768"
proof -
  let ?f = "\<lfloor>x * 32768\<rfloor>"
  have c: "clampSample x = x" using assms by (simp add: clampSample_def)
  have lo: "- 32768 \<le> ?f" using assms by (simp add: le_floor_iff)
  have hi: "?f \<le> 32768" using assms by (simp add: floor_le_iff)
  have f1: "real_of_int ?f \<le> x * 32768" by (rule of_int_floor_le)
  have f2: "x * 32768 < real_of_int ?f + 1" by linarith
  have q: "quantize x = min 32767 ?f" using lo by (simp add: quantize_def c)
  have "\<bar>real_of_int (quantize x) - x * 32768\<bar> \<le> 1"
  proof (cases "?f \<le> 32767")
    case True
    then have "quantize x = ?f" using q by simp
    moreover have "\<bar>real_of_int ?f - x * 32768\<bar> \<le> 1" by linarith
    ultimately show ?thesis by simp
  next
    case False
    then have f: "?f = 32768" using hi by linarith
    have "quantize x = 32767" using q f by simp
    moreover have "32768 \<le> x * 32768" using f1 unfolding f by simp
    ultimately show ?thesis using assms by simp
  qed
  then show ?thesis by (simp add: field_simps abs_le_iff)
qed

lemma encode_length: "length (block_bytes (encode samples rate)) = 2 * length samples"
  by (induction samples) (simp_all add: encode_def int16_bytes_def)

lemma quantize_clamp: "quantize (clampSample x) = quantize x"
  by (simp add: quantize_def clampSample_def)

lemma roundTrip_eq:
  "roundTrip samples rate = Inr (map (\<lambda>x. real_of_int (quantize x) / 32768) samples)"
proof -
  have "even (length (block_bytes (encode samples rate)))"
    by (simp add: encode_length)
  then have "decode (encode samples rate) = Inr (block_bytes (encode samples rate))"
    by (simp add: decode_def)
  then show ?thesis
    by (simp add: roundTrip_def decodeAudioData_def encode_def normalized_encode)
qed

text \<open>
  Claim C8, against the codec as the specification describes it. Encoding any samples
  and decoding the block succeeds and gives as many samples back; a sample that was in
  [-1, 1] comes back within one quantization step, 1/32768, of itself. Encoding is a
  total function (it has no error value): samples out of range encode as the clamped
  samples do, and every sample takes two bytes.
\<close>

theorem pcm_round_trip:
  "(\<exists>ys. roundTrip samples rate = Inr ys \<and> length ys = length samples \<and>
      (\<forall>i<length samples. - 1 \<le> samples ! i \<and> samples ! i \<le> 1 \<longrightarrow>
         \<bar>ys ! i - samples ! i\<bar> \<le> 1 / 32768)) \<and>
   encode (map clampSample samples) rate = encode samples rate \<and>
   length (block_bytes (encode samples rate)) = 2 * length samples"
proof -
  let ?ys = "map (\<lambda>x. real_of_int (quantize x) / 32768) samples"
  have "\<forall>i<length samples. - 1 \<le> samples ! i \<and> samples ! i \<le> 1 \<longrightarrow>
         \<bar>?ys ! i - samples ! i\<bar> \<le> 1 / 32768"
    using quantize_error by (simp del: divide_le_eq_numeral)
  then have "\<exists>ys. roundTrip samples rate = Inr ys \<and> length ys = length samples \<and>
      (\<forall>i<length samples. - 1 \<le> samples ! i \<and> samples ! i \<le> 1 \<longrightarrow>
         \<bar>ys ! i - samples ! i\<bar> \<le> 1 / 32768)"
    using roundTrip_eq [of samples rate] by (intro exI [of _ ?ys]) simp
  moreover have "encode (map clampSample samples) rate = encode samples rate"
    by (simp add: encode_def quantize_clamp comp_def)
  ultimately show ?thesis by (simp add: encode_length)
qed

theorem pcm_round_trip_witness:
  "roundTrip [1, - 1, 1 / 2, 3 / 10] 16000 = Inr [32767 / 32768, - 1, 1 / 2, 9830 / 32768] \<and>
   \<bar>32767 / 32768 - (1 :: real)\<bar> \<le> 1 / 32768 \<and>
   \<bar>9830 / 32768 - (3 / 10 :: real)\<bar> \<le> 1 / 32768 \<and>
   block_bytes (encode [1, - 1, 1 / 2, 3 / 10] 16000) = [255, 127, 0, 128, 0, 64, 102, 38] \<and>
   encode [2, - 3] 16000 = encode [1, - 1] 16000"
proof -
  have ev: "roundTrip [1, - 1, 1 / 2, 3 / 10] 16000 =
      Inr [32767 / 32768, - 1, 1 / 2, 9830 / 32768]"
    by (simp add: roundTrip_def encode_def decode_def decodeAudioData_def quantize_def
          clampSample_def int16_bytes_def int16_of_def)
  have bytes_eq: "block_bytes (encode [1, - 1, 1 / 2, 3 / 10] 16000) = [255, 127, 0, 128, 0, 64, 102, 38]"
    by (simp add: encode_def quantize_def clampSample_def int16_bytes_def)
  obtain ys where ys: "roundTrip [1, - 1, 1 / 2, 3 / 10] 16000 = Inr ys"
    and bound: "\<forall>i<length [1, - 1, 1 / 2, 3 / 10 :: real].
        - 1 \<le> [1, - 1, 1 / 2, 3 / 10 :: real] ! i \<and> [1, - 1, 1 / 2, 3 / 10 :: real] ! i \<le> 1 \<longrightarrow>
        \<bar>ys ! i - [1, - 1, 1 / 2, 3 / 10] ! i\<bar> \<le> 1 / 32768"
    using pcm_round_trip [of "[1, - 1, 1 / 2, 3 / 10]" 16000] by blast
  have ys_eq: "ys = [32767 / 32768, - 1, 1 / 2, 9830 / 32768]" using ys ev by simp
  have b0: "\<bar>32767 / 32768 - (1 :: real)\<bar> \<le> 1 / 32768"
    using bound [rule_format, of 0] unfolding ys_eq by simp
  have b3: "\<bar>9830 / 32768 - (3 / 10 :: real)\<bar> \<le> 1 / 32768"
    using bound [rule_format, of 3] unfolding ys_eq by simp
  have cl: "encode [2, - 3] 16000 = encode [1, - 1] 16000"
    using pcm_round_trip [of "[2, - 3]" 16000] by (simp add: clampSample_def)
  show ?thesis using ev b0 b3 bytes_eq cl by simp
qed

end
